theory Spec2Isabelle
  imports Main
begin

section \<open>JavaScript values and objects\<close>

text \<open>
  The values that travel through the logging helpers: request fields, log payloads and
  the caller's \<^verbatim>\<open>additionalData\<close>. A nested object is a list of its own
  properties; \<^verbatim>\<open>undefined\<close> is a value, so a property can be present and
  hold it.
\<close>

datatype jsval =
    JUndefined
  | JNull
  | JBool bool
  | JNum int
  | JStr string
  | JArr "jsval list"
  | JObj "(string \<times> jsval) list"

text \<open>
  An object under construction is a map from property names to values: \<open>None\<close> is
  "no such own property", \<open>Some JUndefined\<close> is a property holding
  \<^verbatim>\<open>undefined\<close>.
\<close>

type_synonym obj = "string \<rightharpoonup> jsval"

text \<open>A property read of an optional string: an absent one reads \<^verbatim>\<open>undefined\<close>.\<close>

definition opt_str :: "string option \<Rightarrow> jsval" where
  "opt_str s = (case s of None \<Rightarrow> JUndefined | Some x \<Rightarrow> JStr x)"

text \<open>
  \<^verbatim>\<open>x || d\<close> for an optional string \<^verbatim>\<open>x\<close> and a string literal
  \<^verbatim>\<open>d\<close>: \<^verbatim>\<open>undefined\<close> and the empty string are the falsy strings.
\<close>

definition or_default :: "string option \<Rightarrow> string \<Rightarrow> string" where
  "or_default x d = (case x of None \<Rightarrow> d | Some s \<Rightarrow> if s = [] then d else s)"

text \<open>
  An object spread at the end of an object literal,
  \<^verbatim>\<open>{ ...fields, ...src }\<close>: every own property of \<^verbatim>\<open>src\<close> is
  defined on the result, replacing a property of the same name written before it;
  spreading \<^verbatim>\<open>undefined\<close> adds nothing.
\<close>

definition spread :: "obj \<Rightarrow> obj option \<Rightarrow> obj" where
  "spread fields src = (case src of None \<Rightarrow> fields | Some d \<Rightarrow> fields ++ d)"


section \<open>The request (express.d.ts)\<close>

text \<open>
  The fields of Express's \<^verbatim>\<open>Request\<close> that the logging code reads, with the
  \<^verbatim>\<open>agentId?: string\<close> of the declaration merge. The server start-up logs with
  \<^verbatim>\<open>{} as Request\<close>, so every field can be absent at run time.
\<close>

text \<open>\<open>req_method\<close> is \<^verbatim>\<open>req.method\<close>.\<close>

record Request =
  agentId :: "string option"
  originalUrl :: "string option"
  ip :: "string option"
  req_method :: "string option"
  headers :: jsval
  params :: jsval
  body :: jsval

record Response =
  statusCode :: nat

text \<open>The middleware of app.ts that stamps every request with an agent id.\<close>

definition agentId_middleware :: "Request \<Rightarrow> (Request \<Rightarrow> 'a) \<Rightarrow> 'a" where
  "agentId_middleware req next_fn = next_fn (req\<lparr>agentId := Some ''UNKNOWN_AGENT''\<rparr>)"


section \<open>The log entry helper (logger.ts)\<close>

datatype Status = SUCCESS | FAILURE

definition status_str :: "Status \<Rightarrow> string" where
  "status_str s = (case s of SUCCESS \<Rightarrow> ''SUCCESS'' | FAILURE \<Rightarrow> ''FAILURE'')"

record LogEntryOptions =
  action :: string
  clientId :: string
  additionalData :: "obj option"
  status :: "Status option"

text \<open>
  \<^verbatim>\<open>options.status || "SUCCESS"\<close>: both status literals are non-empty strings,
  so only the omitted status is falsy.
\<close>

definition status_or_success :: "Status option \<Rightarrow> Status" where
  "status_or_success s = (case s of None \<Rightarrow> SUCCESS | Some x \<Rightarrow> x)"

text \<open>
  \<^verbatim>\<open>createLogEntry(options, req)\<close>. The third argument is the clock: the string
  that \<^verbatim>\<open>new Date().toISOString()\<close> returns at the moment of the call. The eight
  fixed properties are written first and \<^verbatim>\<open>...options.additionalData\<close> last.
\<close>

definition createLogEntry :: "LogEntryOptions \<Rightarrow> Request \<Rightarrow> string \<Rightarrow> obj" where
  "createLogEntry options req now =
     spread
       [''timestamp'' \<mapsto> JStr now,
        ''agentId'' \<mapsto> JStr (or_default (agentId req) ''UNKNOWN_AGENT''),
        ''clientId'' \<mapsto> JStr (clientId options),
        ''action'' \<mapsto> JStr (action options),
        ''endpoint'' \<mapsto> opt_str (originalUrl req),
        ''status'' \<mapsto> JStr (status_str (status_or_success (status options))),
        ''requestIP'' \<mapsto> opt_str (ip req),
        ''userRole'' \<mapsto> JStr ''agent'']
       (additionalData options)"

text \<open>The names of the eight fixed properties, in the order of the object literal.\<close>

definition fixed_fields :: "string list" where
  "fixed_fields =
     [''timestamp'', ''agentId'', ''clientId'', ''action'', ''endpoint'', ''status'',
      ''requestIP'', ''userRole'']"

text \<open>The own properties of the caller's \<^verbatim>\<open>additionalData\<close>, none when it is omitted.\<close>

definition extra :: "LogEntryOptions \<Rightarrow> obj" where
  "extra options = (case additionalData options of None \<Rightarrow> Map.empty | Some d \<Rightarrow> d)"


section \<open>Logger construction (logger.ts)\<close>

text \<open>
  \<^verbatim>\<open>process.env\<close> after \<^verbatim>\<open>dotenv.config()\<close> has merged the
  \<^verbatim>\<open>.env\<close> file into it: a variable is a string or is not set.
\<close>

type_synonym env = "string \<rightharpoonup> string"

text \<open>The options object handed to the CloudWatch transport's constructor.\<close>

record CloudWatchOptions =
  logGroupName :: string
  logStreamName :: string
  awsRegion :: "string option"
  jsonMessage :: bool
  awsAccessKeyId :: "string option"
  awsSecretAccessKey :: "string option"
  uploadRate :: nat

text \<open>
  The two transports of winston that the module instantiates. Their classes belong to
  winston and winston-cloudwatch; a transport is recorded here as the constructor called
  and the options it was given.
\<close>

datatype Transport = Console | CloudWatch CloudWatchOptions

text \<open>The options object handed to \<^verbatim>\<open>winston.createLogger\<close>.\<close>

record Logger =
  level :: string
  format :: string
  transports :: "Transport list"

definition createLoggerForStream :: "env \<Rightarrow> string \<Rightarrow> Logger" where
  "createLoggerForStream e name =
     \<lparr>level = ''info'',
      format = ''json'',
      transports =
        [Console,
         CloudWatch
           \<lparr>logGroupName = or_default (e ''CLOUDWATCH_LOG_GROUP_NAME'') ''MyAppLogs'',
            logStreamName = name,
            awsRegion = e ''AWS_REGION'',
            jsonMessage = True,
            awsAccessKeyId = e ''AWS_ACCESS_KEY_ID'',
            awsSecretAccessKey = e ''AWS_SECRET_ACCESS_KEY'',
            uploadRate = 1000\<rparr>]\<rparr>"

text \<open>The exported \<^verbatim>\<open>loggers\<close> object: seven properties, fixed by the literal.\<close>

record Registry =
  communication :: Logger
  systemErrors :: Logger
  auditLog :: Logger
  accountTransactions :: Logger
  clientProfile :: Logger
  identityVerification :: Logger
  apiPerformance :: Logger

definition loggers :: "env \<Rightarrow> Registry" where
  "loggers e =
     \<lparr>communication = createLoggerForStream e ''communication-transactions'',
      systemErrors = createLoggerForStream e ''system-errors'',
      auditLog = createLoggerForStream e ''audit-log'',
      accountTransactions = createLoggerForStream e ''account-transactions'',
      clientProfile = createLoggerForStream e ''client-profile-management'',
      identityVerification = createLoggerForStream e ''identity-verification'',
      apiPerformance = createLoggerForStream e ''api-performance''\<rparr>"

text \<open>
  Evaluating the module: \<^verbatim>\<open>dotenv.config()\<close>, then the object literal above.
  The file holds no \<^verbatim>\<open>throw\<close> and no test of the environment, so the
  \<open>ConfigError\<close> that the specification names is the result of no path.
\<close>

datatype LoadError = ConfigError

definition initAll :: "env \<Rightarrow> LoadError + Registry" where
  "initAll e = Inr (loggers e)"

text \<open>\<^verbatim>\<open>Object.entries(loggers)\<close>: the properties in the order of the literal.\<close>

definition registry_entries :: "Registry \<Rightarrow> (string \<times> Logger) list" where
  "registry_entries r =
     [(''communication'', communication r),
      (''systemErrors'', systemErrors r),
      (''auditLog'', auditLog r),
      (''accountTransactions'', accountTransactions r),
      (''clientProfile'', clientProfile r),
      (''identityVerification'', identityVerification r),
      (''apiPerformance'', apiPerformance r)]"

text \<open>The options of a logger's CloudWatch transports, and the streams they name.\<close>

fun cloudwatch_options :: "Transport list \<Rightarrow> CloudWatchOptions list" where
  "cloudwatch_options [] = []"
| "cloudwatch_options (Console # ts) = cloudwatch_options ts"
| "cloudwatch_options (CloudWatch opts # ts) = opts # cloudwatch_options ts"

definition stream_names :: "Logger \<Rightarrow> string list" where
  "stream_names lg = map logStreamName (cloudwatch_options (transports lg))"


section \<open>The request hook (middleware/loggerMiddleware.ts)\<close>

text \<open>
  A call of \<^verbatim>\<open>logger.info(payload)\<close> is an event: the logger it was called on,
  the level of the method, and the object passed. The calls of one run make a list, the
  oldest first.
\<close>

record LogEvent =
  target :: Logger
  severity :: string
  entry :: obj

definition logger_info :: "Logger \<Rightarrow> obj \<Rightarrow> LogEvent list \<Rightarrow> LogEvent list" where
  "logger_info lg payload evs = evs @ [\<lparr>target = lg, severity = ''info'', entry = payload\<rparr>]"

text \<open>
  \<^verbatim>\<open>logRequest(req, res, next)\<close>. The continuation \<open>next_fn\<close> is
  \<^verbatim>\<open>next()\<close>: the rest of the middleware chain, run on the events logged so far;
  whatever it yields is what the hook yields. Nothing follows the call of
  \<^verbatim>\<open>next()\<close> in the source.
\<close>

definition logRequest ::
  "Registry \<Rightarrow> Request \<Rightarrow> Response \<Rightarrow> (LogEvent list \<Rightarrow> 'a) \<Rightarrow> LogEvent list \<Rightarrow> 'a" where
  "logRequest reg req res next_fn evs =
     next_fn
       (logger_info (systemErrors reg)
          [''message'' \<mapsto> JStr ''Incoming request'',
           ''method'' \<mapsto> opt_str (req_method req),
           ''url'' \<mapsto> opt_str (originalUrl req),
           ''headers'' \<mapsto> headers req,
           ''params'' \<mapsto> params req,
           ''body'' \<mapsto> body req]
          evs)"

text \<open>The events of a run that went to a logger writing to the stream \<open>s\<close>.\<close>

definition events_to :: "string \<Rightarrow> LogEvent list \<Rightarrow> LogEvent list" where
  "events_to s evs = filter (\<lambda>ev. s \<in> set (stream_names (target ev))) evs"


section \<open>Sample calls\<close>

text \<open>
  Inputs taken from app.ts: the start-up call, which passes \<^verbatim>\<open>{} as Request\<close>;
  a request as a route handler sees it; and the option objects of the profile routes.
\<close>

abbreviation empty_request :: Request where
  "empty_request \<equiv>
     \<lparr>agentId = None, originalUrl = None, ip = None, req_method = None,
      headers = JUndefined, params = JUndefined, body = JUndefined\<rparr>"

abbreviation sample_request :: Request where
  "sample_request \<equiv>
     \<lparr>agentId = Some ''AGENT12345'', originalUrl = Some ''/api/clients/c1'',
      ip = Some ''10.0.0.7'', req_method = Some ''GET'',
      headers = JObj [(''host'', JStr ''localhost:3000'')],
      params = JObj [(''clientId'', JStr ''c1'')], body = JObj []\<rparr>"

abbreviation startup_options :: LogEntryOptions where
  "startup_options \<equiv>
     \<lparr>action = ''SERVER_START'', clientId = ''SYSTEM'',
      additionalData = Some [''port'' \<mapsto> JNum 3000], status = Some SUCCESS\<rparr>"

abbreviation view_options :: LogEntryOptions where
  "view_options \<equiv>
     \<lparr>action = ''VIEW_CLIENT_PROFILE'', clientId = ''c1'',
      additionalData = None, status = Some SUCCESS\<rparr>"

abbreviation audit_options :: "jsval \<Rightarrow> LogEntryOptions" where
  "audit_options a \<equiv>
     \<lparr>action = ''AUDIT_VIEW_CLIENT_PROFILE'', clientId = ''c1'',
      additionalData = Some [''agentId'' \<mapsto> a], status = None\<rparr>"


section \<open>Properties of the log entry helper\<close>

lemma createLogEntry_extra_Some:
  "extra options k = Some v \<Longrightarrow> createLogEntry options req now k = Some v"
  by (cases "additionalData options") (simp_all add: createLogEntry_def spread_def extra_def)

lemma createLogEntry_extra_None:
  "extra options k = None \<Longrightarrow>
   createLogEntry options req now k =
     [''timestamp'' \<mapsto> JStr now,
      ''agentId'' \<mapsto> JStr (or_default (agentId req) ''UNKNOWN_AGENT''),
      ''clientId'' \<mapsto> JStr (clientId options),
      ''action'' \<mapsto> JStr (action options),
      ''endpoint'' \<mapsto> opt_str (originalUrl req),
      ''status'' \<mapsto> JStr (status_str (status_or_success (status options))),
      ''requestIP'' \<mapsto> opt_str (ip req),
      ''userRole'' \<mapsto> JStr ''agent''] k"
  by (cases "additionalData options")
     (simp_all add: createLogEntry_def spread_def extra_def map_add_def)

lemma extra_no_additionalData: "extra (options\<lparr>additionalData := None\<rparr>) k = None"
  by (simp add: extra_def)

text \<open>
  C1 (as the code has it). On a name that \<^verbatim>\<open>additionalData\<close> defines, the
  entry carries the value of \<^verbatim>\<open>additionalData\<close>, also when the name is one of
  the eight fixed fields; on every other name the entry is what the same call without
  \<^verbatim>\<open>additionalData\<close> returns.
\<close>
theorem createLogEntry_additionalData_precedence:
  "(extra options k = Some v \<longrightarrow> createLogEntry options req now k = Some v) \<and>
   (extra options k = None \<longrightarrow>
      createLogEntry options req now k =
      createLogEntry (options\<lparr>additionalData := None\<rparr>) req now k)"
proof (intro conjI impI)
  assume "extra options k = Some v"
  then show "createLogEntry options req now k = Some v"
    by (rule createLogEntry_extra_Some)
next
  assume none: "extra options k = None"
  have bare: "extra (options\<lparr>additionalData := None\<rparr>) k = None"
    by (rule extra_no_additionalData)
  show "createLogEntry options req now k =
      createLogEntry (options\<lparr>additionalData := None\<rparr>) req now k"
    using createLogEntry_extra_None [OF none] createLogEntry_extra_None [OF bare]
    by simp
qed

theorem createLogEntry_additionalData_precedence_witness:
  "createLogEntry
     \<lparr>action = ''AUDIT_VIEW_CLIENT_PROFILE'', clientId = ''c1'',
      additionalData = Some [''agentId'' \<mapsto> JStr ''A7''], status = None\<rparr>
     sample_request ''2024-11-09T08:00:00.000Z'' ''agentId'' = Some (JStr ''A7'') \<and>
   createLogEntry
     \<lparr>action = ''AUDIT_VIEW_CLIENT_PROFILE'', clientId = ''c1'',
      additionalData = Some [''agentId'' \<mapsto> JStr ''A7''], status = None\<rparr>
     sample_request ''2024-11-09T08:00:00.000Z'' ''action'' =
     Some (JStr ''AUDIT_VIEW_CLIENT_PROFILE'')"
  using
    createLogEntry_additionalData_precedence
      [where options = "\<lparr>action = ''AUDIT_VIEW_CLIENT_PROFILE'', clientId = ''c1'',
            additionalData = Some [''agentId'' \<mapsto> JStr ''A7''], status = None\<rparr>"
         and k = "''agentId''" and v = "JStr ''A7''" and req = sample_request
         and now = "''2024-11-09T08:00:00.000Z''"]
    createLogEntry_additionalData_precedence
      [where options = "\<lparr>action = ''AUDIT_VIEW_CLIENT_PROFILE'', clientId = ''c1'',
            additionalData = Some [''agentId'' \<mapsto> JStr ''A7''], status = None\<rparr>"
         and k = "''action''" and req = sample_request
         and now = "''2024-11-09T08:00:00.000Z''"]
  by (simp add: extra_def createLogEntry_def spread_def)

text \<open>
  C1 as stated fails: the identity-verification route passes
  \<^verbatim>\<open>additionalData: { status: 'VERIFIED' }\<close> with \<^verbatim>\<open>status: 'SUCCESS'\<close>,
  and the entry's status is \<^verbatim>\<open>'VERIFIED'\<close>.
\<close>
theorem createLogEntry_fixed_precedence_counterexample:
  "createLogEntry
     \<lparr>action = ''VERIFY_IDENTITY'', clientId = ''c1'',
      additionalData = Some [''status'' \<mapsto> JStr ''VERIFIED''], status = Some SUCCESS\<rparr>
     sample_request ''2024-11-09T08:00:00.000Z'' ''status'' = Some (JStr ''VERIFIED'') \<and>
   createLogEntry
     \<lparr>action = ''VERIFY_IDENTITY'', clientId = ''c1'',
      additionalData = Some [''status'' \<mapsto> JStr ''VERIFIED''], status = Some SUCCESS\<rparr>
     sample_request ''2024-11-09T08:00:00.000Z'' ''status'' \<noteq> Some (JStr (status_str SUCCESS))"
  by (simp add: createLogEntry_def spread_def status_str_def)


lemma fixed_fields_present: "set fixed_fields \<subseteq> dom (createLogEntry options req now)"
  by (cases "additionalData options")
     (auto simp add: fixed_fields_def createLogEntry_def spread_def)

text \<open>
  C3 (as the code has it). For every input and every request, the empty one included, the
  entry has all eight fixed properties. It has no \<^verbatim>\<open>stream\<close> property unless
  \<^verbatim>\<open>additionalData\<close> brings one. Where \<^verbatim>\<open>additionalData\<close> does not
  define them, the timestamp is the clock's string, the action is the caller's, and the
  endpoint and the request IP are the request's, \<^verbatim>\<open>undefined\<close> when the
  request lacks them.
\<close>
theorem createLogEntry_fields:
  "set fixed_fields \<subseteq> dom (createLogEntry options req now) \<and>
   (extra options ''stream'' = None \<longrightarrow> createLogEntry options req now ''stream'' = None) \<and>
   (extra options ''timestamp'' = None \<longrightarrow>
      createLogEntry options req now ''timestamp'' = Some (JStr now)) \<and>
   (extra options ''action'' = None \<longrightarrow>
      createLogEntry options req now ''action'' = Some (JStr (action options))) \<and>
   (extra options ''endpoint'' = None \<longrightarrow>
      createLogEntry options req now ''endpoint'' =
        Some (case originalUrl req of None \<Rightarrow> JUndefined | Some u \<Rightarrow> JStr u)) \<and>
   (extra options ''requestIP'' = None \<longrightarrow>
      createLogEntry options req now ''requestIP'' =
        Some (case ip req of None \<Rightarrow> JUndefined | Some a \<Rightarrow> JStr a))"
proof (intro conjI impI)
  show "set fixed_fields \<subseteq> dom (createLogEntry options req now)"
    by (rule fixed_fields_present)
next
  assume "extra options ''stream'' = None"
  from createLogEntry_extra_None [OF this]
  show "createLogEntry options req now ''stream'' = None" by simp
next
  assume "extra options ''timestamp'' = None"
  from createLogEntry_extra_None [OF this]
  show "createLogEntry options req now ''timestamp'' = Some (JStr now)" by simp
next
  assume "extra options ''action'' = None"
  from createLogEntry_extra_None [OF this]
  show "createLogEntry options req now ''action'' = Some (JStr (action options))" by simp
next
  assume "extra options ''endpoint'' = None"
  from createLogEntry_extra_None [OF this]
  show "createLogEntry options req now ''endpoint'' =
      Some (case originalUrl req of None \<Rightarrow> JUndefined | Some u \<Rightarrow> JStr u)"
    by (simp add: opt_str_def)
next
  assume "extra options ''requestIP'' = None"
  from createLogEntry_extra_None [OF this]
  show "createLogEntry options req now ''requestIP'' =
      Some (case ip req of None \<Rightarrow> JUndefined | Some a \<Rightarrow> JStr a)"
    by (simp add: opt_str_def)
qed

theorem createLogEntry_fields_witness:
  "set fixed_fields \<subseteq> dom (createLogEntry startup_options empty_request ''2024-11-09T08:00:00.000Z'') \<and>
   createLogEntry startup_options empty_request ''2024-11-09T08:00:00.000Z'' ''stream'' = None \<and>
   createLogEntry startup_options empty_request ''2024-11-09T08:00:00.000Z'' ''timestamp'' =
     Some (JStr ''2024-11-09T08:00:00.000Z'') \<and>
   createLogEntry startup_options empty_request ''2024-11-09T08:00:00.000Z'' ''action'' =
     Some (JStr ''SERVER_START'') \<and>
   createLogEntry startup_options empty_request ''2024-11-09T08:00:00.000Z'' ''endpoint'' =
     Some JUndefined \<and>
   createLogEntry startup_options empty_request ''2024-11-09T08:00:00.000Z'' ''requestIP'' =
     Some JUndefined"
  using createLogEntry_fields
    [where options = startup_options and req = empty_request
       and now = "''2024-11-09T08:00:00.000Z''"]
  by (simp add: extra_def)

text \<open>
  C3 as stated fails: an entry has no \<^verbatim>\<open>stream\<close> property, and on the empty
  request its endpoint is \<^verbatim>\<open>undefined\<close>, not a default.
\<close>
theorem createLogEntry_stream_counterexample:
  "createLogEntry view_options empty_request ''2024-11-09T08:00:00.000Z'' ''stream'' = None \<and>
   createLogEntry view_options empty_request ''2024-11-09T08:00:00.000Z'' ''endpoint'' =
     Some JUndefined"
  by (simp add: createLogEntry_def spread_def opt_str_def)

text \<open>
  C8 (as the code has it). When \<^verbatim>\<open>additionalData\<close> defines no
  \<^verbatim>\<open>agentId\<close>: a request whose agent id is absent or empty gives the entry the
  agent id \<^verbatim>\<open>UNKNOWN_AGENT\<close>, and a request with a non-empty agent id gives
  that one.
\<close>
theorem createLogEntry_agentId_default:
  assumes "extra options ''agentId'' = None"
  shows "(agentId req = None \<or> agentId req = Some [] \<longrightarrow>
            createLogEntry options req now ''agentId'' = Some (JStr ''UNKNOWN_AGENT'')) \<and>
         (\<forall>a. agentId req = Some a \<and> a \<noteq> [] \<longrightarrow>
            createLogEntry options req now ''agentId'' = Some (JStr a))"
  using createLogEntry_extra_None [OF assms, of req now]
  by (auto simp add: or_default_def)

theorem createLogEntry_agentId_default_witness:
  "createLogEntry view_options empty_request ''2024-11-09T08:00:00.000Z'' ''agentId'' =
     Some (JStr ''UNKNOWN_AGENT'') \<and>
   createLogEntry view_options (empty_request\<lparr>agentId := Some []\<rparr>)
     ''2024-11-09T08:00:00.000Z'' ''agentId'' = Some (JStr ''UNKNOWN_AGENT'') \<and>
   createLogEntry view_options sample_request ''2024-11-09T08:00:00.000Z'' ''agentId'' =
     Some (JStr ''AGENT12345'')"
  using
    createLogEntry_agentId_default
      [where options = view_options and req = empty_request
         and now = "''2024-11-09T08:00:00.000Z''"]
    createLogEntry_agentId_default
      [where options = view_options and req = "empty_request\<lparr>agentId := Some []\<rparr>"
         and now = "''2024-11-09T08:00:00.000Z''"]
    createLogEntry_agentId_default
      [where options = view_options and req = sample_request
         and now = "''2024-11-09T08:00:00.000Z''"]
  by (simp add: extra_def)

text \<open>
  C8 as stated fails: the audit calls of app.ts pass
  \<^verbatim>\<open>additionalData: { agentId: req.headers.agentId }\<close>. With the header
  missing the entry's agent id is \<^verbatim>\<open>undefined\<close>, not the sentinel; with the
  header set it is the header's value, not the request's agent id.
\<close>
theorem createLogEntry_agentId_counterexample:
  "createLogEntry (audit_options JUndefined) empty_request ''2024-11-09T08:00:00.000Z''
     ''agentId'' = Some JUndefined \<and>
   createLogEntry (audit_options JUndefined) empty_request ''2024-11-09T08:00:00.000Z''
     ''agentId'' \<noteq> Some (JStr ''UNKNOWN_AGENT'') \<and>
   createLogEntry (audit_options (JStr ''HDR-1'')) sample_request ''2024-11-09T08:00:00.000Z''
     ''agentId'' \<noteq> Some (JStr ''AGENT12345'')"
  by (simp add: createLogEntry_def spread_def)

text \<open>
  C9. Two calls with the same options and the same request, at clock readings
  \<open>t1\<close> and \<open>t2\<close>, agree on every property other than
  \<^verbatim>\<open>timestamp\<close>, and are equal when the readings are.
\<close>
theorem createLogEntry_deterministic_up_to_clock:
  "(k \<noteq> ''timestamp'' \<longrightarrow>
      createLogEntry options req t1 k = createLogEntry options req t2 k) \<and>
   (t1 = t2 \<longrightarrow> createLogEntry options req t1 = createLogEntry options req t2)"
proof (intro conjI impI)
  assume k: "k \<noteq> ''timestamp''"
  show "createLogEntry options req t1 k = createLogEntry options req t2 k"
  proof (cases "extra options k")
    case None
    from createLogEntry_extra_None [OF None, of req t1]
      createLogEntry_extra_None [OF None, of req t2] k
    show ?thesis by simp
  next
    case (Some v)
    from createLogEntry_extra_Some [OF Some, of req t1]
      createLogEntry_extra_Some [OF Some, of req t2]
    show ?thesis by simp
  qed
next
  assume "t1 = t2"
  then show "createLogEntry options req t1 = createLogEntry options req t2" by simp
qed

theorem createLogEntry_deterministic_up_to_clock_witness:
  "createLogEntry startup_options sample_request ''2024-11-09T08:00:00.000Z'' ''action'' =
   createLogEntry startup_options sample_request ''2024-11-09T08:00:01.250Z'' ''action'' \<and>
   createLogEntry startup_options sample_request ''2024-11-09T08:00:00.000Z'' =
   createLogEntry startup_options sample_request ''2024-11-09T08:00:00.000Z''"
  using
    createLogEntry_deterministic_up_to_clock
      [where k = "''action''" and options = startup_options and req = sample_request
         and ?t1.0 = "''2024-11-09T08:00:00.000Z''" and ?t2.0 = "''2024-11-09T08:00:01.250Z''"]
    createLogEntry_deterministic_up_to_clock
      [where k = "''action''" and options = startup_options and req = sample_request
         and ?t1.0 = "''2024-11-09T08:00:00.000Z''" and ?t2.0 = "''2024-11-09T08:00:00.000Z''"]
  by simp

text \<open>
  C10. Unless \<^verbatim>\<open>additionalData\<close> defines \<^verbatim>\<open>userRole\<close>, the entry's
  role is the string \<^verbatim>\<open>agent\<close>; and the role never depends on the request.
\<close>
theorem createLogEntry_userRole_constant:
  "(extra options ''userRole'' = None \<longrightarrow>
      createLogEntry options req now ''userRole'' = Some (JStr ''agent'')) \<and>
   createLogEntry options req now ''userRole'' = createLogEntry options req' now ''userRole''"
proof (intro conjI impI)
  assume "extra options ''userRole'' = None"
  from createLogEntry_extra_None [OF this]
  show "createLogEntry options req now ''userRole'' = Some (JStr ''agent'')" by simp
next
  show "createLogEntry options req now ''userRole'' =
        createLogEntry options req' now ''userRole''"
  proof (cases "extra options ''userRole''")
    case None
    from createLogEntry_extra_None [OF None, of req now]
      createLogEntry_extra_None [OF None, of req' now]
    show ?thesis by simp
  next
    case (Some v)
    from createLogEntry_extra_Some [OF Some, of req now]
      createLogEntry_extra_Some [OF Some, of req' now]
    show ?thesis by simp
  qed
qed

theorem createLogEntry_userRole_constant_witness:
  "createLogEntry startup_options sample_request ''2024-11-09T08:00:00.000Z'' ''userRole'' =
     Some (JStr ''agent'') \<and>
   createLogEntry startup_options sample_request ''2024-11-09T08:00:00.000Z'' ''userRole'' =
   createLogEntry startup_options empty_request ''2024-11-09T08:00:00.000Z'' ''userRole''"
  using createLogEntry_userRole_constant
    [where options = startup_options and req = sample_request and req' = empty_request
       and now = "''2024-11-09T08:00:00.000Z''"]
  by (auto simp add: extra_def)


text \<open>
  Behind the agent-id middleware of app.ts a handler's entry carries the sentinel, unless
  \<^verbatim>\<open>additionalData\<close> defines the agent id.
\<close>

lemma agentId_middleware_entry:
  assumes "extra options ''agentId'' = None"
  shows "agentId_middleware req (\<lambda>r. createLogEntry options r now ''agentId'') =
           Some (JStr ''UNKNOWN_AGENT'')"
  using createLogEntry_extra_None [OF assms, of "req\<lparr>agentId := Some ''UNKNOWN_AGENT''\<rparr>" now]
  by (simp add: agentId_middleware_def or_default_def)


section \<open>Properties of the registry and of the request hook\<close>

lemma cloudwatch_of_createLoggerForStream:
  "cloudwatch_options (transports (createLoggerForStream e name)) =
     [\<lparr>logGroupName = or_default (e ''CLOUDWATCH_LOG_GROUP_NAME'') ''MyAppLogs'',
       logStreamName = name,
       awsRegion = e ''AWS_REGION'',
       jsonMessage = True,
       awsAccessKeyId = e ''AWS_ACCESS_KEY_ID'',
       awsSecretAccessKey = e ''AWS_SECRET_ACCESS_KEY'',
       uploadRate = 1000\<rparr>]"
  by (simp add: createLoggerForStream_def)

lemma stream_names_createLoggerForStream:
  "stream_names (createLoggerForStream e name) = [name]"
  by (simp add: stream_names_def cloudwatch_of_createLoggerForStream)

lemma registry_entries_loggers:
  "registry_entries (loggers e) =
     [(''communication'', createLoggerForStream e ''communication-transactions''),
      (''systemErrors'', createLoggerForStream e ''system-errors''),
      (''auditLog'', createLoggerForStream e ''audit-log''),
      (''accountTransactions'', createLoggerForStream e ''account-transactions''),
      (''clientProfile'', createLoggerForStream e ''client-profile-management''),
      (''identityVerification'', createLoggerForStream e ''identity-verification''),
      (''apiPerformance'', createLoggerForStream e ''api-performance'')]"
  by (simp add: registry_entries_def loggers_def)

text \<open>
  C2 (as the code has it). Loading the module never fails and checks nothing: for every
  environment it yields the registry, and each of its seven loggers has one CloudWatch
  transport whose group name is \<^verbatim>\<open>CLOUDWATCH_LOG_GROUP_NAME\<close>, or
  \<^verbatim>\<open>MyAppLogs\<close> when that is unset or empty, and whose region and credentials
  are the environment's, \<^verbatim>\<open>undefined\<close> when unset.
\<close>
theorem initAll_builds_unchecked:
  "initAll e = Inr (loggers e) \<and>
   (\<forall>(k, lg) \<in> set (registry_entries (loggers e)).
      map (\<lambda>opts. (logGroupName opts, awsRegion opts, awsAccessKeyId opts,
                    awsSecretAccessKey opts))
        (cloudwatch_options (transports lg)) =
      [(case e ''CLOUDWATCH_LOG_GROUP_NAME'' of
          None \<Rightarrow> ''MyAppLogs''
        | Some g \<Rightarrow> if g = [] then ''MyAppLogs'' else g,
        e ''AWS_REGION'', e ''AWS_ACCESS_KEY_ID'', e ''AWS_SECRET_ACCESS_KEY'')])"
  by (simp add: initAll_def registry_entries_loggers cloudwatch_of_createLoggerForStream
        or_default_def)

theorem initAll_builds_unchecked_witness:
  "initAll [''AWS_REGION'' \<mapsto> ''ap-southeast-1''] =
     Inr (loggers [''AWS_REGION'' \<mapsto> ''ap-southeast-1'']) \<and>
   map (\<lambda>opts. (logGroupName opts, awsRegion opts, awsAccessKeyId opts,
                 awsSecretAccessKey opts))
     (cloudwatch_options
        (transports (auditLog (loggers [''AWS_REGION'' \<mapsto> ''ap-southeast-1''])))) =
     [(''MyAppLogs'', Some ''ap-southeast-1'', None, None)]"
  using initAll_builds_unchecked [of "[''AWS_REGION'' \<mapsto> ''ap-southeast-1'']"]
  by (simp add: registry_entries_def)

text \<open>
  C2 as stated fails: with no variable set, the result is not \<open>ConfigError\<close> but a
  registry whose transports have the default group, no region and no credentials.
\<close>
theorem initAll_config_error_counterexample:
  "initAll Map.empty \<noteq> Inl ConfigError \<and>
   initAll Map.empty = Inr (loggers Map.empty) \<and>
   cloudwatch_options (transports (auditLog (loggers Map.empty))) =
     [\<lparr>logGroupName = ''MyAppLogs'', logStreamName = ''audit-log'', awsRegion = None,
       jsonMessage = True, awsAccessKeyId = None, awsSecretAccessKey = None,
       uploadRate = 1000\<rparr>]"
  by (simp add: initAll_def loggers_def createLoggerForStream_def or_default_def)

text \<open>
  C5. For every environment the registry has exactly seven loggers, one under each
  property of \<^verbatim>\<open>loggers\<close>; each writes to exactly one stream, the seven streams
  are pairwise distinct, and they are the seven stream ids of the specification. A
  logger is reached by reading a property of the record, which has no failing case.
\<close>
theorem loggers_seven_streams:
  "map (\<lambda>(k, lg). (k, stream_names lg)) (registry_entries (loggers e)) =
     [(''communication'', [''communication-transactions'']),
      (''systemErrors'', [''system-errors'']),
      (''auditLog'', [''audit-log'']),
      (''accountTransactions'', [''account-transactions'']),
      (''clientProfile'', [''client-profile-management'']),
      (''identityVerification'', [''identity-verification'']),
      (''apiPerformance'', [''api-performance''])] \<and>
   distinct (concat (map (\<lambda>(k, lg). stream_names lg) (registry_entries (loggers e)))) \<and>
   set (concat (map (\<lambda>(k, lg). stream_names lg) (registry_entries (loggers e)))) =
     {''client-profile-management'', ''communication-transactions'',
      ''account-transactions'', ''identity-verification'', ''audit-log'',
      ''system-errors'', ''api-performance''}"
  by (auto simp add: registry_entries_loggers stream_names_createLoggerForStream)

text \<open>
  C6 (as the code has it). The hook logs exactly one event, at level
  \<^verbatim>\<open>info\<close>, on the logger of the stream \<^verbatim>\<open>system-errors\<close>, holding
  the request's method, URL, headers, params and body (and a message); it then runs the
  continuation once on the events so far and returns what the continuation returns. The
  hook itself logs nothing to \<^verbatim>\<open>api-performance\<close>.
\<close>
theorem logRequest_logs_then_next:
  "\<exists>ev. logRequest (loggers e) req res next_fn evs = next_fn (evs @ [ev]) \<and>
        stream_names (target ev) = [''system-errors''] \<and>
        severity ev = ''info'' \<and>
        dom (entry ev) =
          {''message'', ''method'', ''url'', ''headers'', ''params'', ''body''} \<and>
        entry ev ''method'' =
          Some (case req_method req of None \<Rightarrow> JUndefined | Some m \<Rightarrow> JStr m) \<and>
        entry ev ''url'' =
          Some (case originalUrl req of None \<Rightarrow> JUndefined | Some u \<Rightarrow> JStr u) \<and>
        entry ev ''headers'' = Some (headers req) \<and>
        entry ev ''params'' = Some (params req) \<and>
        entry ev ''body'' = Some (body req) \<and>
        events_to ''api-performance'' (evs @ [ev]) = events_to ''api-performance'' evs"
  apply (simp add: logRequest_def logger_info_def)
  apply (rule exI, rule conjI, rule refl)
  apply (simp add: loggers_def stream_names_createLoggerForStream events_to_def opt_str_def)
  apply auto
  done

text \<open>
  C6 as stated fails: when the rest of the chain logs nothing, a run of the hook leaves
  one event, for \<^verbatim>\<open>system-errors\<close>, and none for
  \<^verbatim>\<open>api-performance\<close>.
\<close>
theorem logRequest_performance_counterexample:
  "events_to ''api-performance''
     (logRequest (loggers Map.empty) sample_request \<lparr>statusCode = 200\<rparr> (\<lambda>evs. evs) []) = [] \<and>
   map (\<lambda>ev. stream_names (target ev))
     (logRequest (loggers Map.empty) sample_request \<lparr>statusCode = 200\<rparr> (\<lambda>evs. evs) []) =
     [[''system-errors'']]"
  by (simp add: logRequest_def logger_info_def events_to_def loggers_def
        stream_names_createLoggerForStream)

end
